theory Spec2Isabelle
  imports Complex_Main "HOL-Library.Char_ord" "HOL-Library.List_Lexorder"
begin

section \<open>Python strings and integers\<close>

text \<open>
  Python's \<open>str\<close> is modelled as \<open>string\<close>, one \<open>char\<close> per code point, and the
  string methods below are written for ASCII text: a character above 127 is neither
  white space nor a letter nor a digit and has no case. The white space of
  \<open>str.strip\<close>, \<open>str.split\<close> and \<open>int\<close> is the ASCII part of Python's set
  (code points 9 to 13, 28 to 31 and 32).
\<close>

definition py_isspace :: "char \<Rightarrow> bool" where
  "py_isspace c = (let n = (of_char c :: nat) in (9 \<le> n \<and> n \<le> 13) \<or> (28 \<le> n \<and> n \<le> 32))"

definition is_upper :: "char \<Rightarrow> bool" where
  "is_upper c = (let n = (of_char c :: nat) in 65 \<le> n \<and> n \<le> 90)"

definition is_lower :: "char \<Rightarrow> bool" where
  "is_lower c = (let n = (of_char c :: nat) in 97 \<le> n \<and> n \<le> 122)"

definition is_digit :: "char \<Rightarrow> bool" where
  "is_digit c = (let n = (of_char c :: nat) in 48 \<le> n \<and> n \<le> 57)"

definition lower_char :: "char \<Rightarrow> char" where
  "lower_char c = (if is_upper c then char_of (of_char c + (32::nat)) else c)"

definition upper_char :: "char \<Rightarrow> char" where
  "upper_char c = (if is_lower c then char_of (of_char c - (32::nat)) else c)"

definition py_lower :: "string \<Rightarrow> string" where
  "py_lower s = map lower_char s"

text \<open>\<open>str.capitalize\<close>: the first character upper-cased, the rest lower-cased.\<close>

definition py_capitalize :: "string \<Rightarrow> string" where
  "py_capitalize s = (case s of [] \<Rightarrow> [] | c # cs \<Rightarrow> upper_char c # map lower_char cs)"

definition py_isalpha :: "string \<Rightarrow> bool" where
  "py_isalpha s = (s \<noteq> [] \<and> list_all (\<lambda>c. is_upper c \<or> is_lower c) s)"

text \<open>\<open>s.strip(chars)\<close> removes leading and trailing characters that occur in \<open>chars\<close>.\<close>

definition py_strip_chars :: "string \<Rightarrow> string \<Rightarrow> string" where
  "py_strip_chars chars s =
     rev (dropWhile (\<lambda>c. c \<in> set chars) (rev (dropWhile (\<lambda>c. c \<in> set chars) s)))"

definition py_strip :: "string \<Rightarrow> string" where
  "py_strip s = rev (dropWhile py_isspace (rev (dropWhile py_isspace s)))"

text \<open>\<open>s.split()\<close>: maximal runs of non-space characters, in order.\<close>

fun split_ws :: "string \<Rightarrow> string \<Rightarrow> string list" where
  "split_ws cur [] = (if cur = [] then [] else [rev cur])"
| "split_ws cur (c # cs) =
     (if py_isspace c then (if cur = [] then split_ws [] cs else rev cur # split_ws [] cs)
      else split_ws (c # cur) cs)"

definition py_split :: "string \<Rightarrow> string list" where
  "py_split s = split_ws [] s"

text \<open>\<open>sub in s\<close> for strings: \<open>sub\<close> occurs as a contiguous block of \<open>s\<close>.\<close>

fun py_in :: "string \<Rightarrow> string \<Rightarrow> bool" where
  "py_in sub [] = (sub = [])"
| "py_in sub (c # cs) = (take (length sub) (c # cs) = sub \<or> py_in sub cs)"

text \<open>\<open>sep.join(xs)\<close>.\<close>

fun py_join :: "string \<Rightarrow> string list \<Rightarrow> string" where
  "py_join sep [] = []"
| "py_join sep [x] = x"
| "py_join sep (x # y # ys) = x @ sep @ py_join sep (y # ys)"

text \<open>\<open>str(n)\<close> for an integer: decimal digits, with a minus sign when negative.\<close>

definition digit_char :: "nat \<Rightarrow> char" where
  "digit_char d = ''0123456789'' ! d"

function str_nat :: "nat \<Rightarrow> string" where
  "str_nat n = (if n < 10 then [digit_char n] else str_nat (n div 10) @ [digit_char (n mod 10)])"
  by pat_completeness auto
termination
  by (relation "measure id") auto

declare str_nat.simps [simp del]

definition str_int :: "int \<Rightarrow> string" where
  "str_int i = (if i < 0 then CHR ''-'' # str_nat (nat (- i)) else str_nat (nat i))"

text \<open>
  \<open>int(s)\<close> for a string in base 10: surrounding white space is dropped, one optional
  sign, then digits in which single underscores may stand between two digits. Any other
  text raises \<open>ValueError\<close>, which is \<open>None\<close> here. The limit some interpreter versions
  put on the number of digits is not modelled.
\<close>

definition digit_val :: "char \<Rightarrow> nat" where
  "digit_val c = of_char c - 48"

fun valid_digits :: "string \<Rightarrow> bool" where
  "valid_digits [] = False"
| "valid_digits [c] = is_digit c"
| "valid_digits (c # d # cs) =
     (is_digit c \<and> (if d = CHR ''_'' then valid_digits cs else valid_digits (d # cs)))"

definition digits_val :: "string \<Rightarrow> nat" where
  "digits_val s = foldl (\<lambda>acc c. 10 * acc + digit_val c) 0 (filter (\<lambda>c. c \<noteq> CHR ''_'') s)"

definition py_int :: "string \<Rightarrow> int option" where
  "py_int s =
     (case py_strip s of
        [] \<Rightarrow> None
      | c # cs \<Rightarrow>
          if c = CHR ''-'' then (if valid_digits cs then Some (- int (digits_val cs)) else None)
          else if c = CHR ''+'' then (if valid_digits cs then Some (int (digits_val cs)) else None)
          else if valid_digits (c # cs) then Some (int (digits_val (c # cs))) else None)"

section \<open>Exceptions and review rows\<close>

text \<open>
  A raised exception is a value: its class and the text \<open>str(e)\<close> gives. A function that
  may raise returns \<open>py_exception + 'a\<close>, with \<open>Inl\<close> for the raise.
\<close>

datatype exc_kind =
  KeyError | AttributeError | TypeError | ValueError | OverflowError | ZeroDivisionError | ExternalError

type_synonym py_exception = "exc_kind \<times> string"

definition exc_message :: "py_exception \<Rightarrow> string" where
  "exc_message e = snd e"

text \<open>
  A row as \<open>csv.DictReader\<close> yields it: a dictionary from column names to cells. A cell
  is a string, or Python's \<open>None\<close> when the line was shorter than the header
  (\<open>None\<close> of \<open>string option\<close> here). A column the header does not have is a key the
  row does not have.
\<close>

type_synonym cell = "string option"

type_synonym row = "string \<rightharpoonup> cell"

definition str_cell :: "cell \<Rightarrow> string" where
  "str_cell v = (case v of None \<Rightarrow> ''None'' | Some s \<Rightarrow> s)"

text \<open>\<open>review[key]\<close> raises \<open>KeyError\<close> on a missing key; \<open>review.get(key, "")\<close> does not.\<close>

definition getitem :: "row \<Rightarrow> string \<Rightarrow> py_exception + cell" where
  "getitem review key =
     (case review key of None \<Rightarrow> Inl (KeyError, [CHR 0x27] @ key @ [CHR 0x27]) | Some v \<Rightarrow> Inr v)"

definition get_default :: "row \<Rightarrow> string \<Rightarrow> cell" where
  "get_default review key = (case review key of None \<Rightarrow> Some [] | Some v \<Rightarrow> v)"

definition none_has_no_attribute :: "string \<Rightarrow> py_exception" where
  "none_has_no_attribute name =
     (AttributeError, [CHR 0x27] @ ''NoneType'' @ [CHR 0x27] @ '' object has no attribute ''
        @ [CHR 0x27] @ name @ [CHR 0x27])"

text \<open>The text \<open>f"{review['Title']} ({review['Date']}): {review['Review']}"\<close>.\<close>

definition format_review :: "row \<Rightarrow> py_exception + string" where
  "format_review review =
     (case getitem review ''Title'' of Inl e \<Rightarrow> Inl e | Inr t \<Rightarrow>
      case getitem review ''Date'' of Inl e \<Rightarrow> Inl e | Inr d \<Rightarrow>
      case getitem review ''Review'' of Inl e \<Rightarrow> Inl e | Inr b \<Rightarrow>
        Inr (str_cell t @ '' ('' @ str_cell d @ ''): '' @ str_cell b))"

text \<open>A loop or generator that formats each element stops at the first raise.\<close>

fun format_all :: "row list \<Rightarrow> py_exception + string list" where
  "format_all [] = Inr []"
| "format_all (r # rs) =
     (case format_review r of Inl e \<Rightarrow> Inl e | Inr line \<Rightarrow>
      case format_all rs of Inl e \<Rightarrow> Inl e | Inr ls \<Rightarrow> Inr (line # ls))"

definition blank_line :: string where
  "blank_line = [CHR 0x0A, CHR 0x0A]"

section \<open>Floating point: true division and fixed-point formatting\<close>

text \<open>
  \<open>a / b\<close> on two Python integers is the IEEE 754 binary64 number nearest to the exact
  quotient (ties to even), and raises \<open>OverflowError\<close> when that is beyond the largest
  double. A double is modelled by its sign, an integer \<open>m\<close> and an exponent \<open>e\<close>: its
  magnitude is \<open>m * 2 ^ e\<close>.
  \<open>f"{x:.pf}"\<close> prints the exact value of the double rounded to \<open>p\<close> decimals, ties to
  even, and keeps the sign of a negative number that rounds to zero.
\<close>

type_synonym py_float = "bool \<times> int \<times> int"

definition float_value :: "py_float \<Rightarrow> rat" where
  "float_value x =
     (case x of (negative, m, e) \<Rightarrow>
        (if negative then - 1 else 1) * of_int m * (if 0 \<le> e then 2 ^ nat e else 1 / 2 ^ nat (- e)))"

function bit_length :: "nat \<Rightarrow> nat" where
  "bit_length n = (if n = 0 then 0 else Suc (bit_length (n div 2)))"
  by pat_completeness auto
termination
  by (relation "measure id") auto

declare bit_length.simps [simp del]

text \<open>\<open>n / d\<close> rounded to the nearest integer, ties to the even one, for \<open>d > 0\<close>.\<close>

definition round_half_even :: "int \<Rightarrow> int \<Rightarrow> int" where
  "round_half_even n d =
     (let q = n div d; r = n mod d
      in if 2 * r < d then q else if d < 2 * r then q + 1 else if even q then q else q + 1)"

text \<open>The exponent \<open>e\<close> with \<open>2 ^ e \<le> a / b < 2 ^ (e + 1)\<close>, for positive \<open>a\<close> and \<open>b\<close>.\<close>

definition floor_log2 :: "nat \<Rightarrow> nat \<Rightarrow> int" where
  "floor_log2 a b =
     (let e0 = int (bit_length a) - int (bit_length b)
      in if (if 0 \<le> e0 then int b * 2 ^ nat e0 \<le> int a else int b \<le> int a * 2 ^ nat (- e0))
         then e0 else e0 - 1)"

text \<open>
  Rounding \<open>a / b\<close> to binary64: the result is \<open>m * 2 ^ e\<close> with \<open>m\<close> of 53 bits at most and
  \<open>e\<close> the exponent of the last place, which stops at \<open>- 1074\<close> (the subnormal numbers).
\<close>

definition double_round :: "nat \<Rightarrow> nat \<Rightarrow> int \<times> int" where
  "double_round a b =
     (if a = 0 then (0, 0)
      else let e = max (floor_log2 a b) (- 1022) - 52
           in (if 0 \<le> e then round_half_even (int a) (int b * 2 ^ nat e)
               else round_half_even (int a * 2 ^ nat (- e)) (int b), e))"

definition py_truediv :: "int \<Rightarrow> nat \<Rightarrow> py_exception + py_float" where
  "py_truediv a b =
     (if b = 0 then Inl (ZeroDivisionError, ''division by zero'')
      else let (m, e) = double_round (nat \<bar>a\<bar>) b
           in if 0 \<le> e \<and> 2 ^ 1024 \<le> m * 2 ^ nat e
              then Inl (OverflowError, ''integer division result too large for a float'')
              else Inr (a < 0, m, e))"

definition zero_pad :: "nat \<Rightarrow> string \<Rightarrow> string" where
  "zero_pad w s = replicate (w - length s) CHR ''0'' @ s"

text \<open>The double \<open>m * 2 ^ e\<close> times \<open>10 ^ p\<close>, rounded to an integer.\<close>

definition scaled_round :: "nat \<Rightarrow> int \<Rightarrow> int \<Rightarrow> int" where
  "scaled_round p m e =
     (if 0 \<le> e then m * 2 ^ nat e * 10 ^ p else round_half_even (m * 10 ^ p) (2 ^ nat (- e)))"

text \<open>The digits of \<open>r / 10 ^ p\<close> with \<open>p\<close> decimals, for \<open>r \<ge> 0\<close>.\<close>

definition fixed_text :: "nat \<Rightarrow> bool \<Rightarrow> int \<Rightarrow> string" where
  "fixed_text p negative r =
     (if negative then ''-'' else []) @ str_nat (nat (r div 10 ^ p)) @ ''.''
       @ zero_pad p (str_nat (nat (r mod 10 ^ p)))"

definition format_f :: "nat \<Rightarrow> py_float \<Rightarrow> string" where
  "format_f p x = (case x of (negative, m, e) \<Rightarrow> fixed_text p negative (scaled_round p m e))"

section \<open>Dates\<close>

text \<open>
  \<open>datetime.strptime(s, "%Y-%m-%d")\<close>: four digits, a month of one or two digits, a day
  of one or two digits (a blank may stand for the first), nothing after them, and a date
  that exists in the calendar from year 1 on. Where the library raises \<open>ValueError\<close> the
  result is \<open>None\<close>. The result is the pair (year, month), which is all that
  \<open>strftime("%Y-%m")\<close> reads.
\<close>

definition in_range :: "char \<Rightarrow> char \<Rightarrow> char \<Rightarrow> bool" where
  "in_range lo hi c = ((of_char lo :: nat) \<le> of_char c \<and> (of_char c :: nat) \<le> of_char hi)"

text \<open>The group \<open>1[0-2]|0[1-9]|[1-9]\<close>: the month and the rest of the text.\<close>

fun parse_month :: "string \<Rightarrow> (nat \<times> string) option" where
  "parse_month (a # b # cs) =
     (if a = CHR ''1'' \<and> in_range CHR ''0'' CHR ''2'' b then Some (10 + digit_val b, cs)
      else if a = CHR ''0'' \<and> in_range CHR ''1'' CHR ''9'' b then Some (digit_val b, cs)
      else if in_range CHR ''1'' CHR ''9'' a then Some (digit_val a, b # cs)
      else None)"
| "parse_month [a] = (if in_range CHR ''1'' CHR ''9'' a then Some (digit_val a, []) else None)"
| "parse_month [] = None"

text \<open>The group \<open>3[0-1]|[1-2]\d|0[1-9]|[1-9]| [1-9]\<close>: the day and the rest of the text.\<close>

fun parse_day :: "string \<Rightarrow> (nat \<times> string) option" where
  "parse_day (a # b # cs) =
     (if a = CHR ''3'' \<and> in_range CHR ''0'' CHR ''1'' b then Some (30 + digit_val b, cs)
      else if in_range CHR ''1'' CHR ''2'' a \<and> is_digit b then Some (10 * digit_val a + digit_val b, cs)
      else if a = CHR ''0'' \<and> in_range CHR ''1'' CHR ''9'' b then Some (digit_val b, cs)
      else if in_range CHR ''1'' CHR ''9'' a then Some (digit_val a, b # cs)
      else if a = CHR '' '' \<and> in_range CHR ''1'' CHR ''9'' b then Some (digit_val b, cs)
      else None)"
| "parse_day [a] = (if in_range CHR ''1'' CHR ''9'' a then Some (digit_val a, []) else None)"
| "parse_day [] = None"

definition is_leap :: "nat \<Rightarrow> bool" where
  "is_leap y = (y mod 4 = 0 \<and> (y mod 100 \<noteq> 0 \<or> y mod 400 = 0))"

definition days_in_month :: "nat \<Rightarrow> nat \<Rightarrow> nat" where
  "days_in_month y m =
     (if m = 2 then (if is_leap y then 29 else 28)
      else if m \<in> set [4, 6, 9, 11] then 30 else 31)"

definition strptime_ymd :: "string \<Rightarrow> (nat \<times> nat) option" where
  "strptime_ymd s =
     (case s of
        y1 # y2 # y3 # y4 # dash1 # rest \<Rightarrow>
          if list_all is_digit [y1, y2, y3, y4] \<and> dash1 = CHR ''-'' then
            (case parse_month rest of
               None \<Rightarrow> None
             | Some (m, rest1) \<Rightarrow>
                 (case rest1 of
                    [] \<Rightarrow> None
                  | dash2 # rest2 \<Rightarrow>
                      if dash2 = CHR ''-'' then
                        (case parse_day rest2 of
                           None \<Rightarrow> None
                         | Some (d, rest3) \<Rightarrow>
                             let y = digits_val [y1, y2, y3, y4]
                             in if rest3 = [] \<and> 1 \<le> y \<and> d \<le> days_in_month y m then Some (y, m)
                                else None)
                      else None))
          else None
      | _ \<Rightarrow> None)"

text \<open>
  \<open>strftime("%Y-%m")\<close> as the language documents it: the year on four digits, the month on
  two. (Some C libraries print a year below 1000 without the leading zeros.)
\<close>

definition strftime_ym :: "nat \<times> nat \<Rightarrow> string" where
  "strftime_ym ym = zero_pad 4 (str_nat (fst ym)) @ ''-'' @ zero_pad 2 (str_nat (snd ym))"

section \<open>The analytics tools (tools.py)\<close>

subsection \<open>rating_summary_tool\<close>

text \<open>
  \<open>int(review["Rating"])\<close> inside \<open>try\<close>: a missing key, a \<open>None\<close> cell and text that is
  not an integer all raise, and the bare \<open>except\<close> skips the row.
\<close>

definition parsed_rating :: "row \<Rightarrow> int option" where
  "parsed_rating review = (case review ''Rating'' of Some (Some s) \<Rightarrow> py_int s | _ \<Rightarrow> None)"

fun rating_loop :: "int \<Rightarrow> nat \<Rightarrow> row list \<Rightarrow> int \<times> nat" where
  "rating_loop total_rating count [] = (total_rating, count)"
| "rating_loop total_rating count (review # rest) =
     (case parsed_rating review of
        Some r \<Rightarrow> rating_loop (total_rating + r) (count + 1) rest
      | None \<Rightarrow> rating_loop total_rating count rest)"

definition summary_text :: "nat \<Rightarrow> string \<Rightarrow> string" where
  "summary_text count avg =
     ''There are '' @ str_nat count @ '' reviews with an average rating of '' @ avg @ '' stars.''"

definition rating_summary_tool :: "row list \<Rightarrow> string \<Rightarrow> py_exception + string" where
  "rating_summary_tool reviews_data unused_input =
     (let (total_rating, count) = rating_loop 0 0 reviews_data
      in if count \<noteq> 0 then
           (case py_truediv total_rating count of
              Inl e \<Rightarrow> Inl e
            | Inr avg_rating \<Rightarrow> Inr (summary_text count (format_f 1 avg_rating)))
         else Inr (summary_text count (format_f 1 (False, 0, 0))))"

subsection \<open>sentiment_trend_tool\<close>

definition review_month :: "row \<Rightarrow> string option" where
  "review_month review =
     (case review ''Date'' of
        Some (Some s) \<Rightarrow> map_option strftime_ym (strptime_ymd s)
      | _ \<Rightarrow> None)"

text \<open>\<open>ratings_by_month[month].append(rating)\<close> on a \<open>defaultdict(list)\<close>.\<close>

fun append_rating :: "(string \<times> int list) list \<Rightarrow> string \<Rightarrow> int \<Rightarrow> (string \<times> int list) list" where
  "append_rating [] month rating = [(month, [rating])]"
| "append_rating ((k, rs) # kvs) month rating =
     (if k = month then (k, rs @ [rating]) # kvs else (k, rs) # append_rating kvs month rating)"

fun trend_loop :: "(string \<times> int list) list \<Rightarrow> row list \<Rightarrow> (string \<times> int list) list" where
  "trend_loop ratings_by_month [] = ratings_by_month"
| "trend_loop ratings_by_month (review # rest) =
     (case review_month review of
        None \<Rightarrow> trend_loop ratings_by_month rest
      | Some month \<Rightarrow>
          (case parsed_rating review of
             None \<Rightarrow> trend_loop ratings_by_month rest
           | Some rating \<Rightarrow> trend_loop (append_rating ratings_by_month month rating) rest))"

definition month_ratings :: "(string \<times> int list) list \<Rightarrow> string \<Rightarrow> int list" where
  "month_ratings ratings_by_month month = (case map_of ratings_by_month month of None \<Rightarrow> [] | Some rs \<Rightarrow> rs)"

definition trend_line :: "(string \<times> int list) list \<Rightarrow> string \<Rightarrow> py_exception + string" where
  "trend_line ratings_by_month month =
     (let rs = month_ratings ratings_by_month month
      in case py_truediv (sum_list rs) (length rs) of
           Inl e \<Rightarrow> Inl e
         | Inr avg \<Rightarrow> Inr (month @ '': '' @ format_f 2 avg))"

fun trend_lines :: "(string \<times> int list) list \<Rightarrow> string list \<Rightarrow> py_exception + string list" where
  "trend_lines ratings_by_month [] = Inr []"
| "trend_lines ratings_by_month (month # months) =
     (case trend_line ratings_by_month month of Inl e \<Rightarrow> Inl e | Inr line \<Rightarrow>
      case trend_lines ratings_by_month months of Inl e \<Rightarrow> Inl e | Inr ls \<Rightarrow> Inr (line # ls))"

definition sorted_months :: "row list \<Rightarrow> string list" where
  "sorted_months reviews_data = sort (map fst (trend_loop [] reviews_data))"

definition sentiment_trend_tool :: "row list \<Rightarrow> string \<Rightarrow> py_exception + string" where
  "sentiment_trend_tool reviews_data unused_input =
     (case trend_lines (trend_loop [] reviews_data) (sorted_months reviews_data) of
        Inl e \<Rightarrow> Inl e
      | Inr trend \<Rightarrow> Inr (''Sentiment trend by month:'' @ [CHR 0x0A] @ py_join [CHR 0x0A] trend))"

subsection \<open>search_reviews_tool\<close>

fun search_results :: "string \<Rightarrow> row list \<Rightarrow> py_exception + string list" where
  "search_results query [] = Inr []"
| "search_results query (review # rest) =
     (case getitem review ''Review'' of
        Inl e \<Rightarrow> Inl e
      | Inr None \<Rightarrow> Inl (none_has_no_attribute ''lower'')
      | Inr (Some body) \<Rightarrow>
          if py_in (py_lower query) (py_lower body) then
            (case format_review review of Inl e \<Rightarrow> Inl e | Inr line \<Rightarrow>
             case search_results query rest of Inl e \<Rightarrow> Inl e | Inr ls \<Rightarrow> Inr (line # ls))
          else search_results query rest)"

definition search_reviews_tool :: "row list \<Rightarrow> string \<Rightarrow> py_exception + string" where
  "search_reviews_tool reviews_data query =
     (case search_results query reviews_data of
        Inl e \<Rightarrow> Inl e
      | Inr results \<Rightarrow>
          if results = [] then Inr ''No reviews found matching your query.''
          else Inr (py_join blank_line (take 3 results)))"

subsection \<open>count_rating_tool\<close>

definition rating_text :: "row \<Rightarrow> string" where
  "rating_text review = py_strip (str_cell (get_default review ''Rating''))"

definition count_rating_error :: string where
  "count_rating_error = ''Invalid input. Please provide a number like '' @ [CHR 0x27] @ ''5'' @ [CHR 0x27] @ ''.''"

definition count_rating_tool :: "row list \<Rightarrow> string \<Rightarrow> py_exception + string" where
  "count_rating_tool reviews_data rating_str =
     (case py_int (py_strip rating_str) of
        None \<Rightarrow> Inr count_rating_error
      | Some rating \<Rightarrow>
          let count = length (filter (\<lambda>review. rating_text review = str_int rating) reviews_data)
          in Inr (str_nat count @ '' customers gave a '' @ str_int rating @ ''-star rating.''))"

subsection \<open>top_rated_comments_tool\<close>

text \<open>\<open>xs[:n]\<close>: a negative \<open>n\<close> counts from the end.\<close>

definition slice_to :: "'a list \<Rightarrow> int \<Rightarrow> 'a list" where
  "slice_to xs n = (if n < 0 then take (nat (int (length xs) + n)) xs else take (nat n) xs)"

definition top_rated_error :: string where
  "top_rated_error =
     ''Please provide a number like '' @ [CHR 0x27] @ ''3'' @ [CHR 0x27] @ '' to get top rated comments.''"

definition top_rated_comments_tool :: "row list \<Rightarrow> string \<Rightarrow> py_exception + string" where
  "top_rated_comments_tool reviews_data n =
     (case py_int n of
        None \<Rightarrow> Inr top_rated_error
      | Some k \<Rightarrow>
          let top_reviews = slice_to (filter (\<lambda>review. rating_text review = ''5'') reviews_data) k
          in if top_reviews = [] then Inr ''No top rated reviews found.''
             else (case format_all top_reviews of
                     Inl e \<Rightarrow> Inl e
                   | Inr ls \<Rightarrow> Inr (py_join blank_line ls)))"

subsection \<open>low_rated_reasons_tool and most_mentioned_dish_tool\<close>

text \<open>
  The dictionary of counts keeps its keys in insertion order, and an update of a key
  that is present keeps its place: an association list.
\<close>

fun bump :: "(string \<times> nat) list \<Rightarrow> string \<Rightarrow> (string \<times> nat) list" where
  "bump [] w = [(w, 1)]"
| "bump ((k, c) # kvs) w = (if k = w then (k, c + 1) # kvs else (k, c) # bump kvs w)"

definition punctuation :: string where
  "punctuation = ''.,!?()''"

text \<open>The inner loop over the words of one (lower-cased) review body.\<close>

fun count_words :: "(string \<times> nat) list \<Rightarrow> (string \<Rightarrow> bool) \<Rightarrow> string list \<Rightarrow> (string \<times> nat) list" where
  "count_words keywords keep [] = keywords"
| "count_words keywords keep (word # ws) =
     (let word' = py_strip_chars punctuation word
      in if keep word' then count_words (bump keywords word') keep ws
         else count_words keywords keep ws)"

fun low_rated_loop :: "(string \<times> nat) list \<Rightarrow> row list \<Rightarrow> py_exception + (string \<times> nat) list" where
  "low_rated_loop keywords [] = Inr keywords"
| "low_rated_loop keywords (review # rest) =
     (case get_default review ''Rating'' of
        None \<Rightarrow> Inl (none_has_no_attribute ''strip'')
      | Some r \<Rightarrow>
          if py_strip r \<in> set [''1'', ''2''] then
            (case getitem review ''Review'' of
               Inl e \<Rightarrow> Inl e
             | Inr None \<Rightarrow> Inl (none_has_no_attribute ''lower'')
             | Inr (Some body) \<Rightarrow>
                 low_rated_loop (count_words keywords py_isalpha (py_split (py_lower body))) rest)
          else low_rated_loop keywords rest)"

text \<open>\<open>sorted(items, key=lambda x: x[1], reverse=True)\<close>: a stable sort, largest count first.\<close>

definition sorted_by_count_desc :: "(string \<times> nat) list \<Rightarrow> (string \<times> nat) list" where
  "sorted_by_count_desc items = sort_key (\<lambda>x. - int (snd x)) items"

definition low_rated_prefix :: string where
  "low_rated_prefix = ''Common keywords in low-rated reviews: ''"

definition low_rated_reasons_tool :: "row list \<Rightarrow> string \<Rightarrow> py_exception + string" where
  "low_rated_reasons_tool reviews_data unused_input =
     (case low_rated_loop [] reviews_data of
        Inl e \<Rightarrow> Inl e
      | Inr keywords \<Rightarrow>
          let sorted_keywords = take 5 (sorted_by_count_desc keywords)
          in Inr (low_rated_prefix @ py_join '', '' (map fst sorted_keywords)))"

fun word_freq_loop :: "(string \<times> nat) list \<Rightarrow> row list \<Rightarrow> py_exception + (string \<times> nat) list" where
  "word_freq_loop word_freq [] = Inr word_freq"
| "word_freq_loop word_freq (review # rest) =
     (case getitem review ''Review'' of
        Inl e \<Rightarrow> Inl e
      | Inr None \<Rightarrow> Inl (none_has_no_attribute ''lower'')
      | Inr (Some body) \<Rightarrow>
          word_freq_loop
            (count_words word_freq (\<lambda>w. py_isalpha w \<and> length w > 3) (py_split (py_lower body))) rest)"

text \<open>\<open>max(items, key=lambda x: x[1])\<close> on a non-empty list: the first item of largest count.\<close>

fun max_by_count :: "(string \<times> nat) \<Rightarrow> (string \<times> nat) list \<Rightarrow> (string \<times> nat)" where
  "max_by_count best [] = best"
| "max_by_count best (x # xs) = (if snd x > snd best then max_by_count x xs else max_by_count best xs)"

definition most_mentioned_dish_tool :: "row list \<Rightarrow> string \<Rightarrow> py_exception + string" where
  "most_mentioned_dish_tool reviews_data unused_input =
     (case word_freq_loop [] reviews_data of
        Inl e \<Rightarrow> Inl e
      | Inr [] \<Rightarrow> Inr ''No mentions found.''
      | Inr (x # xs) \<Rightarrow>
          let top_word = max_by_count x xs
          in Inr (''The most mentioned term in reviews is '' @ [CHR 0x27] @ fst top_word @ [CHR 0x27]
                  @ '' with '' @ str_nat (snd top_word) @ '' mentions.''))"

subsection \<open>review_count_by_date_tool and final_answer_tool\<close>

definition review_count_by_date_tool :: "row list \<Rightarrow> string \<Rightarrow> py_exception + string" where
  "review_count_by_date_tool reviews_data date =
     (let count = length (filter (\<lambda>review. review ''Date'' = Some (Some date)) reviews_data)
      in Inr (str_nat count @ '' reviews were posted on '' @ date @ ''.''))"

definition final_answer_tool :: "string \<Rightarrow> py_exception + string" where
  "final_answer_tool text = (if text = [] then Inr ''No final answer provided.'' else Inr (py_strip text))"


section \<open>The mail tool (tools.py)\<close>

text \<open>
  What \<open>json.loads\<close> returns. The text of a value inside an f-string is the string itself
  for a string; for the other values it is left to the environment below.
\<close>

datatype json =
  JNull | JBool bool | JInt int | JFloat py_float | JString string
  | JArray "json list" | JObject "(string \<times> json) list"

record email =
  mail_from :: cell
  mail_to :: json
  mail_subject :: json
  mail_body :: json

text \<open>
  The world outside the program: the JSON parser, the text of a non-string value, the account
  read from the process environment, and the mail relay. \<open>deliver\<close> stands for building the
  \<open>EmailMessage\<close>, opening the SMTP session, logging in and sending: \<open>None\<close> when all of it
  succeeds, the exception otherwise.
\<close>

record mail_env =
  loads :: "string \<Rightarrow> py_exception + json"
  render :: "json \<Rightarrow> string"
  gmail_user :: cell
  deliver :: "email \<Rightarrow> py_exception option"

definition str_json :: "mail_env \<Rightarrow> json \<Rightarrow> string" where
  "str_json env v = (case v of JString s \<Rightarrow> s | _ \<Rightarrow> render env v)"

text \<open>\<open>data["to"]\<close>: a key lookup on a dictionary, a \<open>TypeError\<close> on every other value.\<close>

definition subscript_to :: "json \<Rightarrow> py_exception + json" where
  "subscript_to data =
     (case data of
        JObject kvs \<Rightarrow>
          (case map_of kvs ''to'' of
             None \<Rightarrow> Inl (KeyError, [CHR 0x27] @ ''to'' @ [CHR 0x27])
           | Some v \<Rightarrow> Inr v)
      | JArray _ \<Rightarrow> Inl (TypeError, ''list indices must be integers or slices, not str'')
      | JString _ \<Rightarrow> Inl (TypeError, ''string indices must be integers, not '' @ [CHR 0x27] @ ''str'' @ [CHR 0x27])
      | JNull \<Rightarrow> Inl (TypeError, [CHR 0x27] @ ''NoneType'' @ [CHR 0x27] @ '' object is not subscriptable'')
      | JBool _ \<Rightarrow> Inl (TypeError, [CHR 0x27] @ ''bool'' @ [CHR 0x27] @ '' object is not subscriptable'')
      | JInt _ \<Rightarrow> Inl (TypeError, [CHR 0x27] @ ''int'' @ [CHR 0x27] @ '' object is not subscriptable'')
      | JFloat _ \<Rightarrow> Inl (TypeError, [CHR 0x27] @ ''float'' @ [CHR 0x27] @ '' object is not subscriptable''))"

text \<open>\<open>data.get(key, default)\<close>, reached only when \<open>data\<close> is a dictionary.\<close>

definition json_get :: "json \<Rightarrow> string \<Rightarrow> json \<Rightarrow> json" where
  "json_get data key dflt =
     (case data of
        JObject kvs \<Rightarrow> (case map_of kvs key of None \<Rightarrow> dflt | Some v \<Rightarrow> v)
      | _ \<Rightarrow> dflt)"

text \<open>The program's state: the review store and the messages handed to the relay so far.\<close>

record world =
  reviews_data :: "row list"
  outbox :: "email list"

definition send_mail_error :: "py_exception \<Rightarrow> string" where
  "send_mail_error e = ''[SendMail Error] '' @ exc_message e"

definition send_mail_tool :: "mail_env \<Rightarrow> world \<Rightarrow> string \<Rightarrow> (py_exception + string) \<times> world" where
  "send_mail_tool env w input_str =
     (case loads env input_str of
        Inl e \<Rightarrow> (Inr (send_mail_error e), w)
      | Inr data \<Rightarrow>
          (case subscript_to data of
             Inl e \<Rightarrow> (Inr (send_mail_error e), w)
           | Inr to_addr \<Rightarrow>
               let msg = \<lparr>mail_from = gmail_user env, mail_to = to_addr,
                          mail_subject = json_get data ''subject'' (JString ''No Subject''),
                          mail_body = json_get data ''body'' (JString [])\<rparr>
               in (case deliver env msg of
                     Some e \<Rightarrow> (Inr (send_mail_error e), w)
                   | None \<Rightarrow>
                       (Inr (''Email sent successfully to '' @ str_json env to_addr),
                        w\<lparr>outbox := outbox w @ [msg]\<rparr>))))"

text \<open>The message the mail tool builds when the request gives neither subject nor body.\<close>

definition default_message :: "mail_env \<Rightarrow> json \<Rightarrow> email" where
  "default_message env to_addr =
     \<lparr>mail_from = gmail_user env, mail_to = to_addr,
      mail_subject = JString ''No Subject'', mail_body = JString []\<rparr>"

text \<open>The message the mail tool builds from a parsed request with a recipient.\<close>

definition message_of :: "mail_env \<Rightarrow> json \<Rightarrow> json \<Rightarrow> email" where
  "message_of env data to_addr =
     \<lparr>mail_from = gmail_user env, mail_to = to_addr,
      mail_subject = json_get data ''subject'' (JString ''No Subject''),
      mail_body = json_get data ''body'' (JString [])\<rparr>"

section \<open>The tool registries (main.py)\<close>

type_synonym handler = "world \<Rightarrow> string \<Rightarrow> (py_exception + string) \<times> world"

text \<open>An analytics tool reads the module-level list \<open>reviews_data\<close> and assigns nothing.\<close>

definition reads :: "(row list \<Rightarrow> string \<Rightarrow> py_exception + string) \<Rightarrow> handler" where
  "reads tool = (\<lambda>w input. (tool (reviews_data w) input, w))"

definition tool_error :: "py_exception \<Rightarrow> string" where
  "tool_error e = ''[Tool Error] '' @ exc_message e"

definition safe_tool :: "handler \<Rightarrow> handler" where
  "safe_tool tool_func =
     (\<lambda>w input_str.
        case tool_func w input_str of
          (Inr s, w') \<Rightarrow> (Inr s, w')
        | (Inl e, w') \<Rightarrow> (Inr (tool_error e), w'))"

text \<open>
  A registered tool: its name, the function the registration starts from, and the \<open>func\<close>
  that the \<open>Tool\<close> object holds and the agent loop calls. (The descriptions are prompt text
  and are left out.)
\<close>

record tool =
  name :: string
  underlying :: handler
  func :: handler

definition wrapped :: "string \<Rightarrow> handler \<Rightarrow> tool" where
  "wrapped n f = \<lparr>name = n, underlying = f, func = safe_tool f\<rparr>"

definition review_tools :: "tool list" where
  "review_tools =
     [wrapped ''RatingSummary'' (reads rating_summary_tool),
      wrapped ''SearchReviews'' (reads search_reviews_tool),
      wrapped ''FinalAnswer'' (\<lambda>w text. (final_answer_tool text, w)),
      wrapped ''CountRating'' (reads count_rating_tool),
      wrapped ''TopRatedComments'' (reads top_rated_comments_tool),
      wrapped ''LowRatedReasons'' (reads low_rated_reasons_tool),
      wrapped ''ReviewCountByDate'' (reads review_count_by_date_tool),
      wrapped ''MostMentionedDish'' (reads most_mentioned_dish_tool),
      wrapped ''SentimentTrend'' (reads sentiment_trend_tool)]"

text \<open>The mail registry's \<open>FinalAnswer\<close> is the bare \<open>lambda x: x\<close>, registered as it is.\<close>

definition mail_tools :: "mail_env \<Rightarrow> tool list" where
  "mail_tools env =
     [wrapped ''SendMail'' (send_mail_tool env),
      \<lparr>name = ''FinalAnswer'', underlying = (\<lambda>w x. (Inr x, w)), func = (\<lambda>w x. (Inr x, w))\<rparr>]"

section \<open>Intent classification and the /smart endpoint (main.py)\<close>

definition intent_prompt :: "string \<Rightarrow> string" where
  "intent_prompt user_input =
     ''Classify the user'' @ [CHR 0x27] @ ''s intent as one of the following categories: Review or Mail.''
     @ [CHR 0x0A, CHR 0x0A] @ ''User input: '' @ [CHR 0x22] @ user_input @ [CHR 0x22] @ [CHR 0x0A, CHR 0x0A]
     @ ''Answer with exactly one word: Review or Mail.''"

text \<open>The language model is a function from the prompt to its completion, which may raise.\<close>

type_synonym llm = "string \<Rightarrow> py_exception + string"

definition classify_intent_llm :: "llm \<Rightarrow> string \<Rightarrow> py_exception + string" where
  "classify_intent_llm apredict user_input =
     (case apredict (intent_prompt user_input) of
        Inl e \<Rightarrow> Inl e
      | Inr response \<Rightarrow>
          let intent = py_capitalize (py_strip response)
          in if intent \<notin> set [''Review'', ''Mail''] then Inr ''Unknown'' else Inr intent)"

datatype agent = ReviewAgent | MailAgent

datatype http_response = Ok200 string string | Error500 string

definition apology :: string where
  "apology = ''Sorry, I couldn'' @ [CHR 0x27] @ ''t understand if this is about reviews or sending mail.''"

text \<open>
  The handler returns the response and the agents it ran, in order. An agent run is a
  function from the prompt to the final text, which may raise.
\<close>

definition smart_router ::
  "llm \<Rightarrow> (string \<Rightarrow> py_exception + string) \<Rightarrow> (string \<Rightarrow> py_exception + string) \<Rightarrow> string
     \<Rightarrow> http_response \<times> agent list" where
  "smart_router apredict agent_executor mail_agent_executor prompt =
     (case classify_intent_llm apredict prompt of
        Inl e \<Rightarrow> (Error500 (exc_message e), [])
      | Inr intent \<Rightarrow>
          if intent = ''Review'' then
            (case agent_executor prompt of
               Inl e \<Rightarrow> (Error500 (exc_message e), [ReviewAgent])
             | Inr result \<Rightarrow> (Ok200 intent result, [ReviewAgent]))
          else if intent = ''Mail'' then
            (case mail_agent_executor prompt of
               Inl e \<Rightarrow> (Error500 (exc_message e), [MailAgent])
             | Inr result \<Rightarrow> (Ok200 intent result, [MailAgent]))
          else (Ok200 intent apology, []))"

section \<open>The loader and sample data\<close>

text \<open>
  \<open>load_reviews_from_csv\<close> appends the rows of the file to \<open>reviews_data\<close>; it runs once,
  when the module is imported. Reading and splitting the file is the \<open>csv\<close> module's work,
  so the rows are the argument.
\<close>

definition load_reviews_from_csv :: "row list \<Rightarrow> world \<Rightarrow> world" where
  "load_reviews_from_csv file_rows w = w\<lparr>reviews_data := reviews_data w @ file_rows\<rparr>"

definition mk_row :: "string \<Rightarrow> string \<Rightarrow> string \<Rightarrow> string \<Rightarrow> row" where
  "mk_row t d r b = [''Title'' \<mapsto> Some t, ''Date'' \<mapsto> Some d, ''Rating'' \<mapsto> Some r, ''Review'' \<mapsto> Some b]"

text \<open>A row of a file whose header has no \<open>Date\<close> and no \<open>Review\<close> column.\<close>

definition headless_row :: row where
  "headless_row = [''Title'' \<mapsto> Some ''Lunch'', ''Rating'' \<mapsto> Some ''5'']"

text \<open>
  An environment for the examples: the parser knows one document, \<open>{"to":"x@y.com"}\<close>, and
  rejects every other text the way \<open>json.loads\<close> rejects text that is not JSON; the relay
  accepts every message.
\<close>

definition sample_json :: string where
  "sample_json = ''{'' @ [CHR 0x22] @ ''to'' @ [CHR 0x22] @ '':'' @ [CHR 0x22] @ ''x@y.com'' @ [CHR 0x22] @ ''}''"

definition sample_env :: mail_env where
  "sample_env =
     \<lparr>loads = (\<lambda>s. if s = sample_json then Inr (JObject [(''to'', JString ''x@y.com'')])
                    else Inl (ValueError, ''Expecting value: line 1 column 1 (char 0)'')),
      render = (\<lambda>v. ''None''),
      gmail_user = Some ''me@example.com'',
      deliver = (\<lambda>msg. None)\<rparr>"

section \<open>Reference descriptions of the results\<close>



definition column :: "row \<Rightarrow> string \<Rightarrow> string" where
  "column review key = (case review key of None \<Rightarrow> [] | Some v \<Rightarrow> str_cell v)"



text \<open>The reviews whose lower-cased body contains the lower-cased query, in file order.\<close>

definition matching :: "string \<Rightarrow> row list \<Rightarrow> row list" where
  "matching query data = filter (\<lambda>review. py_in (py_lower query) (py_lower (column review ''Review''))) data"



text \<open>The ratings that parse as integers, in file order.\<close>

definition ratings :: "row list \<Rightarrow> int list" where
  "ratings data = List.map_filter parsed_rating data"


definition five_row :: row where
  "five_row = mk_row ''Lunch'' ''2024-01-05'' ''5'' ''Great pasta''"

definition four_row :: row where
  "four_row = mk_row ''Dinner'' ''2024-01-06'' ''4'' ''Good soup''"
















section \<open>Properties\<close>

subsection \<open>Malformed numeric input\<close>






subsection \<open>The safe-call wrapper and the registries\<close>

text \<open>
  C1. For every tool of the Review registry and of the Mail registry, every state and every
  input: when the function the registration starts from raises, the registered tool returns
  the text \<open>[Tool Error]\<close>, a blank and the exception's message; when it returns a text,
  the registered tool returns that text. In both cases the registered tool returns and does
  not raise. (The Mail registry's \<open>FinalAnswer\<close> is the identity, which never raises.)
\<close>

theorem registered_tools_return_text:
  "\<forall>t \<in> set (review_tools @ mail_tools env). \<forall>w x.
     (case fst (underlying t w x) of
        Inl e \<Rightarrow> fst (func t w x) = Inr (''[Tool Error] '' @ exc_message e)
      | Inr s \<Rightarrow> fst (func t w x) = Inr s)"
  by (auto simp: review_tools_def mail_tools_def wrapped_def safe_tool_def tool_error_def
           split: sum.splits prod.splits)

theorem registered_tools_return_text_witness:
  "wrapped ''SearchReviews'' (reads search_reviews_tool) \<in> set (review_tools @ mail_tools sample_env)
   \<and> fst (reads search_reviews_tool \<lparr>reviews_data = [headless_row], outbox = []\<rparr> ''pasta'')
        = Inl (KeyError, [CHR 0x27] @ ''Review'' @ [CHR 0x27])
   \<and> fst (func (wrapped ''SearchReviews'' (reads search_reviews_tool))
             \<lparr>reviews_data = [headless_row], outbox = []\<rparr> ''pasta'')
        = Inr (''[Tool Error] '' @ [CHR 0x27] @ ''Review'' @ [CHR 0x27])"
proof -
  let ?t = "wrapped ''SearchReviews'' (reads search_reviews_tool)"
  let ?w = "\<lparr>reviews_data = [headless_row], outbox = []\<rparr>"
  have mem: "?t \<in> set (review_tools @ mail_tools sample_env)"
    by (simp add: review_tools_def)
  have raises: "fst (reads search_reviews_tool ?w ''pasta'') = Inl (KeyError, [CHR 0x27] @ ''Review'' @ [CHR 0x27])"
    by (simp add: reads_def search_reviews_tool_def getitem_def headless_row_def)
  have u: "underlying ?t = reads search_reviews_tool" by (simp add: wrapped_def)
  from registered_tools_return_text [of sample_env] mem
  have "case fst (underlying ?t ?w ''pasta'') of
          Inl e \<Rightarrow> fst (func ?t ?w ''pasta'') = Inr (''[Tool Error] '' @ exc_message e)
        | Inr s \<Rightarrow> fst (func ?t ?w ''pasta'') = Inr s"
    by blast
  with raises u have "fst (func ?t ?w ''pasta'') = Inr (''[Tool Error] '' @ [CHR 0x27] @ ''Review'' @ [CHR 0x27])"
    by (simp add: exc_message_def)
  with mem raises show ?thesis by blast
qed

text \<open>
  C10. A call of any tool of the Review registry, in any state and on any input, returns the
  state it was given: the review store (its rows and their order) and everything else are
  the same after the call as before. This holds for the registered tool and for the function
  it wraps, and so in every state the one-time load leaves behind.
\<close>

theorem analytics_tools_leave_store_unchanged:
  "\<forall>t \<in> set review_tools. \<forall>w x. snd (func t w x) = w \<and> snd (underlying t w x) = w"
  by (auto simp: review_tools_def wrapped_def safe_tool_def reads_def split: sum.splits prod.splits)

theorem analytics_tools_leave_store_unchanged_witness:
  "wrapped ''CountRating'' (reads count_rating_tool) \<in> set review_tools
   \<and> reviews_data (snd (func (wrapped ''CountRating'' (reads count_rating_tool))
        (load_reviews_from_csv [mk_row ''Lunch'' ''2024-01-05'' ''5'' ''Great pasta'']
           \<lparr>reviews_data = [], outbox = []\<rparr>) ''5''))
     = [mk_row ''Lunch'' ''2024-01-05'' ''5'' ''Great pasta'']"
proof -
  have mem: "wrapped ''CountRating'' (reads count_rating_tool) \<in> set review_tools"
    by (simp add: review_tools_def)
  from analytics_tools_leave_store_unchanged mem
  have "snd (func (wrapped ''CountRating'' (reads count_rating_tool))
          (load_reviews_from_csv [mk_row ''Lunch'' ''2024-01-05'' ''5'' ''Great pasta'']
             \<lparr>reviews_data = [], outbox = []\<rparr>) ''5'')
        = load_reviews_from_csv [mk_row ''Lunch'' ''2024-01-05'' ''5'' ''Great pasta'']
            \<lparr>reviews_data = [], outbox = []\<rparr>"
    by blast
  then show ?thesis
    using mem by (simp add: load_reviews_from_csv_def)
qed

subsection \<open>The /smart endpoint\<close>

text \<open>
  C9. When the classifier's answer, stripped of surrounding white space and capitalised, is
  neither \<open>Review\<close> nor \<open>Mail\<close>, the \<open>/smart\<close> handler answers with intent \<open>Unknown\<close>
  and the fixed apology, and runs neither the Review agent nor the Mail agent.
\<close>

theorem unknown_intent_gets_apology:
  assumes "apredict (intent_prompt prompt) = Inr response"
    and "py_capitalize (py_strip response) \<noteq> ''Review''"
    and "py_capitalize (py_strip response) \<noteq> ''Mail''"
  shows "smart_router apredict agent_executor mail_agent_executor prompt = (Ok200 ''Unknown'' apology, [])"
  using assms by (simp add: smart_router_def classify_intent_llm_def)

theorem unknown_intent_gets_apology_witness:
  "(\<lambda>p. Inr '' review, maybe '') (intent_prompt ''hello'') = (Inr '' review, maybe '' :: py_exception + string)
   \<and> py_capitalize (py_strip '' review, maybe '') \<noteq> ''Review''
   \<and> py_capitalize (py_strip '' review, maybe '') \<noteq> ''Mail''
   \<and> smart_router (\<lambda>p. Inr '' review, maybe '') (\<lambda>p. Inr ''review agent ran'') (\<lambda>p. Inr ''mail agent ran'') ''hello''
       = (Ok200 ''Unknown'' apology, [])"
proof -
  have h1: "(\<lambda>p. Inr '' review, maybe '') (intent_prompt ''hello'') = (Inr '' review, maybe '' :: py_exception + string)"
    by simp
  have h2: "py_capitalize (py_strip '' review, maybe '') \<noteq> ''Review''"
    by (simp add: py_capitalize_def py_strip_def py_isspace_def)
  have h3: "py_capitalize (py_strip '' review, maybe '') \<noteq> ''Mail''"
    by (simp add: py_capitalize_def py_strip_def py_isspace_def upper_char_def is_lower_def)
  show ?thesis
    using h2 h3 unknown_intent_gets_apology [OF h1 h2 h3] by simp
qed

subsection \<open>The mail tool\<close>

text \<open>
  C2. For every input the mail tool returns a text and does not raise. When the input parses
  to a JSON object with a key \<open>to\<close> and without the keys \<open>subject\<close> and \<open>body\<close>, and the
  relay accepts the message, the tool hands over exactly one message, with subject
  \<open>No Subject\<close> and an empty body, and returns \<open>Email sent successfully to\<close> followed by the
  recipient. When the parser rejects the input, when the parsed value has no \<open>to\<close> (a
  missing key, or a value that is not an object), or when the relay fails, the tool returns
  \<open>[SendMail Error]\<close> followed by the exception's message and hands over no message.
\<close>

theorem send_mail_tool_contract:
  "(\<exists>s. fst (send_mail_tool env w input_str) = Inr s)
   \<and> (loads env input_str = Inr (JObject kvs) \<and> map_of kvs ''to'' = Some to_addr
        \<and> map_of kvs ''subject'' = None \<and> map_of kvs ''body'' = None
        \<and> deliver env (default_message env to_addr) = None
      \<longrightarrow> send_mail_tool env w input_str
            = (Inr (''Email sent successfully to '' @ str_json env to_addr),
               w\<lparr>outbox := outbox w @ [default_message env to_addr]\<rparr>))
   \<and> (loads env input_str = Inl e
      \<longrightarrow> send_mail_tool env w input_str = (Inr (''[SendMail Error] '' @ exc_message e), w))
   \<and> (loads env input_str = Inr data \<and> subscript_to data = Inl e
      \<longrightarrow> send_mail_tool env w input_str = (Inr (''[SendMail Error] '' @ exc_message e), w))
   \<and> (loads env input_str = Inr (JObject kvs) \<and> map_of kvs ''to'' = None
      \<longrightarrow> send_mail_tool env w input_str
            = (Inr (''[SendMail Error] '' @ [CHR 0x27] @ ''to'' @ [CHR 0x27]), w))
   \<and> (loads env input_str = Inr data \<and> subscript_to data = Inr to_addr
        \<and> deliver env (message_of env data to_addr) = Some e
      \<longrightarrow> send_mail_tool env w input_str = (Inr (''[SendMail Error] '' @ exc_message e), w))"
  by (auto simp: send_mail_tool_def default_message_def message_of_def subscript_to_def json_get_def
        send_mail_error_def exc_message_def Let_def split: sum.splits option.splits json.splits)

theorem send_mail_tool_contract_witness:
  "loads sample_env sample_json = Inr (JObject [(''to'', JString ''x@y.com'')])
   \<and> map_of [(''to'', JString ''x@y.com'')] ''to'' = Some (JString ''x@y.com'')
   \<and> map_of [(''to'', JString ''x@y.com'')] ''subject'' = None
   \<and> map_of [(''to'', JString ''x@y.com'')] ''body'' = None
   \<and> deliver sample_env (default_message sample_env (JString ''x@y.com'')) = None
   \<and> send_mail_tool sample_env \<lparr>reviews_data = [], outbox = []\<rparr> sample_json
        = (Inr ''Email sent successfully to x@y.com'',
           \<lparr>reviews_data = [],
            outbox = [\<lparr>mail_from = Some ''me@example.com'', mail_to = JString ''x@y.com'',
                       mail_subject = JString ''No Subject'', mail_body = JString []\<rparr>]\<rparr>)
   \<and> loads sample_env ''{to:'' = Inl (ValueError, ''Expecting value: line 1 column 1 (char 0)'')
   \<and> send_mail_tool sample_env \<lparr>reviews_data = [], outbox = []\<rparr> ''{to:''
        = (Inr ''[SendMail Error] Expecting value: line 1 column 1 (char 0)'',
           \<lparr>reviews_data = [], outbox = []\<rparr>)"
proof -
  let ?w = "\<lparr>reviews_data = [], outbox = []\<rparr>"
  let ?kvs = "[(''to'', JString ''x@y.com'')]"
  have h1: "loads sample_env sample_json = Inr (JObject ?kvs)"
    by (simp add: sample_env_def)
  have h2: "map_of ?kvs ''to'' = Some (JString ''x@y.com'')"
    and h3: "map_of ?kvs ''subject'' = None" and h4: "map_of ?kvs ''body'' = None"
    by simp_all
  have h5: "deliver sample_env (default_message sample_env (JString ''x@y.com'')) = None"
    by (simp add: sample_env_def)
  have h6: "loads sample_env ''{to:'' = Inl (ValueError, ''Expecting value: line 1 column 1 (char 0)'')"
    by (simp add: sample_env_def sample_json_def)
  from send_mail_tool_contract [of sample_env ?w sample_json ?kvs "JString ''x@y.com''"] h1 h2 h3 h4 h5
  have ok: "send_mail_tool sample_env ?w sample_json
        = (Inr (''Email sent successfully to '' @ str_json sample_env (JString ''x@y.com'')),
           ?w\<lparr>outbox := outbox ?w @ [default_message sample_env (JString ''x@y.com'')]\<rparr>)"
    by blast
  from send_mail_tool_contract
         [of sample_env ?w "''{to:''" _ _ "(ValueError, ''Expecting value: line 1 column 1 (char 0)'')"] h6
  have bad: "send_mail_tool sample_env ?w ''{to:''
        = (Inr (''[SendMail Error] '' @ exc_message (ValueError, ''Expecting value: line 1 column 1 (char 0)'')), ?w)"
    by blast
  have ok': "send_mail_tool sample_env ?w sample_json
        = (Inr ''Email sent successfully to x@y.com'',
           \<lparr>reviews_data = [],
            outbox = [\<lparr>mail_from = Some ''me@example.com'', mail_to = JString ''x@y.com'',
                       mail_subject = JString ''No Subject'', mail_body = JString []\<rparr>]\<rparr>)"
    using ok by (simp add: str_json_def default_message_def sample_env_def)
  have bad': "send_mail_tool sample_env ?w ''{to:''
        = (Inr ''[SendMail Error] Expecting value: line 1 column 1 (char 0)'', ?w)"
    using bad by (simp add: exc_message_def)
  show ?thesis using h1 h2 h3 h4 h5 h6 ok' bad' by blast
qed

subsection \<open>Formatting reviews\<close>








subsection \<open>Top-N five-star reviews\<close>




subsection \<open>Keyword search\<close>








subsection \<open>Average rating\<close>

lemmas bit_length_eval =
  bit_length.simps [of "numeral k"] bit_length.simps [of 0] bit_length.simps [of 1]
  bit_length.simps [of "Suc 0"] for k

lemmas str_nat_eval =
  str_nat.simps [of "numeral k"] str_nat.simps [of 0] str_nat.simps [of 1]
  str_nat.simps [of "Suc 0"] for k

lemmas py_int_eval = py_int_def py_strip_def py_isspace_def is_digit_def digits_val_def digit_val_def

lemma rating_loop_ratings:
  "rating_loop total_rating count data
     = (total_rating + sum_list (ratings data), count + length (ratings data))"
proof (induction data arbitrary: total_rating count)
  case Nil
  then show ?case by (simp add: ratings_def List.map_filter_simps)
next
  case (Cons r rs)
  then show ?case by (cases "parsed_rating r") (simp_all add: ratings_def List.map_filter_simps)
qed








text \<open>
  The same happens on ordinary data at a tie: seven ratings of 5 and thirteen of 4 have
  the mean 4.35, whose nearest double lies below it, and the tool reports 4.3.
\<close>

lemma ratings_replicate: "parsed_rating r = Some v \<Longrightarrow> ratings (replicate n r @ rest) = replicate n v @ ratings rest"
  by (induction n) (simp_all add: ratings_def List.map_filter_simps)

lemma tie_div: "py_truediv 87 20 = Inr (False, 4897664594765414, - 50)"
  by (simp add: py_truediv_def double_round_def floor_log2_def round_half_even_def Let_def bit_length_eval)

lemma tie_scaled: "scaled_round 1 4897664594765414 (- 50) = 43"
  by (simp add: scaled_round_def round_half_even_def Let_def)

lemma tie_text: "format_f 1 (False, 4897664594765414, - 50) = ''4.3''"
  using tie_scaled by (simp add: format_f_def fixed_text_def zero_pad_def str_nat_eval digit_char_def)

lemma rating_summary_tie_example:
  "sum_list (ratings (replicate 7 five_row @ replicate 13 four_row)) = 87
   \<and> length (ratings (replicate 7 five_row @ replicate 13 four_row)) = 20
   \<and> rating_summary_tool (replicate 7 five_row @ replicate 13 four_row) []
       = Inr ''There are 20 reviews with an average rating of 4.3 stars.''"
proof -
  have p5: "parsed_rating five_row = Some 5"
    by (simp add: parsed_rating_def five_row_def mk_row_def py_int_eval)
  have p4: "parsed_rating four_row = Some 4"
    by (simp add: parsed_rating_def four_row_def mk_row_def py_int_eval)
  have r: "ratings (replicate 7 five_row @ replicate 13 four_row) = replicate 7 5 @ replicate 13 4"
    using ratings_replicate [OF p5, of 7 "replicate 13 four_row"] ratings_replicate [OF p4, of 13 "[]"]
    by (simp add: ratings_def List.map_filter_simps)
  have s: "sum_list (ratings (replicate 7 five_row @ replicate 13 four_row)) = 87"
    and l: "length (ratings (replicate 7 five_row @ replicate 13 four_row)) = 20"
    by (simp_all add: r sum_list_replicate)
  have "rating_loop 0 0 (replicate 7 five_row @ replicate 13 four_row) = (87, 20)"
    by (simp add: rating_loop_ratings s l)
  then have "rating_summary_tool (replicate 7 five_row @ replicate 13 four_row) []
       = Inr ''There are 20 reviews with an average rating of 4.3 stars.''"
    using tie_div tie_text by (simp add: rating_summary_tool_def summary_text_def str_nat_eval digit_char_def)
  with s l show ?thesis by blast
qed

subsection \<open>Low-rated keywords\<close>















subsection \<open>Sentiment trend\<close>






















end
